theory Spec2Isabelle
  imports Complex_Main "HOL-Library.AList" "HOL-Library.Char_ord" "HOL-Library.List_Lexorder"
    "HOL-Library.Multiset"
begin

section \<open>Python values used by the sources\<close>

text \<open>
  A Python \<open>str\<close> is a \<open>string\<close>: the bytes of its UTF-8 encoding. With
  \<open>Char_ord\<close> and \<open>List_Lexorder\<close> strings are ordered lexicographically by byte,
  which for UTF-8 is the order of the code points that Python's \<open>sorted\<close> uses.
  A \<open>dict\<close> is an association list with distinct keys in insertion order:
  \<open>map_of\<close> reads it, \<open>AList.update\<close> stores into it (in place for a key that is
  present, at the end otherwise), \<open>[]\<close> is the empty dict.
\<close>

text \<open>What \<open>json.loads\<close> returns. Numbers are the finite ones.\<close>

datatype json =
    JNull
  | JBool bool
  | JNum rat
  | JStr string
  | JList "json list"
  | JObj "(string \<times> json) list"

text \<open>
  The three \<open>RunUpgradeError\<close> messages of \<open>cou/utils/app_utils.py\<close>, each with the
  values its f-string formats.
\<close>

datatype run_upgrade_message =
    CannotGetOSDRelease string
  | MismatchedOSDReleases json
  | UnrecognizedCephRelease string string

text \<open>
  The exceptions: those of \<open>cou.exceptions\<close> that the sources and the tests name, an
  arbitrary other \<open>Exception\<close> with its message, and the built-in ones that the modelled
  expressions can raise.
\<close>

datatype exn =
    MismatchedOpenStackVersions
  | RunUpgradeError run_upgrade_message
  | CommandRunFailed
  | HaltUpgradePlanGeneration
  | HighestReleaseAchieved
  | NoTargetError
  | OutOfSupportRange
  | OtherException string
  | KeyError
  | IndexError
  | AttributeError
  | TypeError
  | ValueError
  | JSONDecodeError

datatype log_level = DEBUG | WARNING | ERROR

text \<open>A record of a \<open>logger\<close> call: level, format string, arguments.\<close>

type_synonym 'a log_record = "log_level \<times> string \<times> 'a list"

text \<open>\<open>d.get(key, default)\<close> and \<open>d[key]\<close> on a dict.\<close>

definition dict_get :: "('k \<times> 'v) list \<Rightarrow> 'k \<Rightarrow> 'v \<Rightarrow> 'v" where
  "dict_get d key dflt = (case map_of d key of None \<Rightarrow> dflt | Some v \<Rightarrow> v)"


text \<open>\<open>xs[i]\<close> for an index \<open>i \<ge> 0\<close>.\<close>

definition list_getitem :: "'a list \<Rightarrow> nat \<Rightarrow> exn + 'a" where
  "list_getitem xs i = (if i < length xs then Inr (xs ! i) else Inl IndexError)"

text \<open>\<open>s.split(sep)\<close> for a separator of one character: never empty.\<close>

fun py_split :: "char \<Rightarrow> string \<Rightarrow> string list" where
  "py_split sep [] = [[]]"
| "py_split sep (c # cs) =
     (if c = sep then [] # py_split sep cs
      else (case py_split sep cs of
              [] \<Rightarrow> [[c]]
            | w # ws \<Rightarrow> (c # w) # ws))"

text \<open>
  \<open>s.strip()\<close> removes from both ends the characters that \<open>str.isspace\<close> accepts:
  U+0009 to U+000D, U+001C to U+0020, U+0085, U+00A0, U+1680, U+2000 to U+200A, U+2028,
  U+2029, U+202F, U+205F and U+3000. In UTF-8 the first group is one byte each, U+0085
  and U+00A0 are two bytes (C2 85, C2 A0) and the others three (E1 9A 80, E2 80 80 to
  E2 80 8A, E2 80 A8, E2 80 A9, E2 80 AF, E2 81 9F, E3 80 80). A lead byte starts a
  character, so at the end of a string too these bytes are such a character.
\<close>

definition py_isspace :: "char \<Rightarrow> bool" where
  "py_isspace c =
     (let n = (of_char c :: nat) in (9 \<le> n \<and> n \<le> 13) \<or> (28 \<le> n \<and> n \<le> 32))"

definition py_isspace2 :: "char \<Rightarrow> char \<Rightarrow> bool" where
  "py_isspace2 a b = (a = CHR 0xC2 \<and> (b = CHR 0x85 \<or> b = CHR 0xA0))"

definition py_isspace3 :: "char \<Rightarrow> char \<Rightarrow> char \<Rightarrow> bool" where
  "py_isspace3 a b c =
     (let n = (of_char c :: nat)
      in (a = CHR 0xE1 \<and> b = CHR 0x9A \<and> c = CHR 0x80) \<or>
         (a = CHR 0xE2 \<and> b = CHR 0x80 \<and>
            ((0x80 \<le> n \<and> n \<le> 0x8A) \<or> n = 0xA8 \<or> n = 0xA9 \<or> n = 0xAF)) \<or>
         (a = CHR 0xE2 \<and> b = CHR 0x81 \<and> c = CHR 0x9F) \<or>
         (a = CHR 0xE3 \<and> b = CHR 0x80 \<and> c = CHR 0x80))"

text \<open>
  The string without the whitespace at its front; \<open>sp1\<close>, \<open>sp2\<close> and \<open>sp3\<close> say
  which one, two and three bytes are a whitespace character.
\<close>

fun strip_front ::
  "(char \<Rightarrow> bool) \<Rightarrow> (char \<Rightarrow> char \<Rightarrow> bool) \<Rightarrow> (char \<Rightarrow> char \<Rightarrow> char \<Rightarrow> bool) \<Rightarrow> string \<Rightarrow> string" where
  "strip_front sp1 sp2 sp3 [] = []"
| "strip_front sp1 sp2 sp3 [a] = (if sp1 a then [] else [a])"
| "strip_front sp1 sp2 sp3 [a, b] =
     (if sp1 a then strip_front sp1 sp2 sp3 [b]
      else if sp2 a b then []
      else [a, b])"
| "strip_front sp1 sp2 sp3 (a # b # c # s) =
     (if sp1 a then strip_front sp1 sp2 sp3 (b # c # s)
      else if sp2 a b then strip_front sp1 sp2 sp3 (c # s)
      else if sp3 a b c then strip_front sp1 sp2 sp3 s
      else a # b # c # s)"

text \<open>
  \<open>s.strip()\<close>: the front is stripped, then the end, on the reversed string with the
  bytes of a character in reverse.
\<close>

definition py_strip :: "string \<Rightarrow> string" where
  "py_strip s =
     rev (strip_front py_isspace (\<lambda>b a. py_isspace2 a b) (\<lambda>c b a. py_isspace3 a b c)
            (rev (strip_front py_isspace py_isspace2 py_isspace3 s)))"


text \<open>\<open>sub in s\<close> on strings: \<open>sub\<close> occurs in \<open>s\<close> as a contiguous run.\<close>

fun str_contains :: "string \<Rightarrow> string \<Rightarrow> bool" where
  "str_contains sub [] = (sub = [])"
| "str_contains sub (c # cs) =
     (take (length sub) (c # cs) = sub \<or> str_contains sub cs)"

text \<open>\<open>sep.join(xs)\<close>.\<close>

fun join :: "string \<Rightarrow> string list \<Rightarrow> string" where
  "join sep [] = []"
| "join sep [x] = x"
| "join sep (x # y # ys) = x @ sep @ join sep (y # ys)"

text \<open>
  \<open>max(xs)\<close> on a list whose first item is \<open>x\<close>: Python keeps the first of the greatest
  items.
\<close>

definition py_max :: "'a::linorder \<Rightarrow> 'a list \<Rightarrow> 'a" where
  "py_max x xs = foldl (\<lambda>m y. if m < y then y else m) x xs"

section \<open>\<open>cou/apps/app.py\<close>: the Application class\<close>

text \<open>
  \<open>OpenStackRelease\<close> (\<open>cou/utils/openstack.py\<close>) is the type parameter \<open>'r\<close>, ordered
  where the source compares releases. The value of a key of a unit's dict is a string
  (\<open>"workload_version"\<close>), a release or \<open>None\<close> (\<open>"os_version"\<close>).
\<close>

datatype 'r unit_value = Str string | Release 'r | NoneValue

record Unit =
  name :: string

record UnitStatus =
  workload_version :: string

text \<open>The fields of juju's \<open>ApplicationStatus\<close> that the class reads.\<close>

record ApplicationStatus =
  charm :: string
  charm_channel :: string
  series :: string
  units :: "(string \<times> UnitStatus) list"

text \<open>
  The dataclass. \<open>config\<close> is a dict of dicts of strings, as juju gives it
  (\<open>{"source": {"value": "cloud:focal-wallaby"}}\<close>).
\<close>

record 'r Application =
  name :: string
  status :: ApplicationStatus
  config :: "(string \<times> (string \<times> string) list) list"
  model_name :: string
  charm :: string
  charm_origin :: string
  os_origin :: string
  channel :: string
  units :: "(string \<times> (string \<times> 'r unit_value) list) list"

datatype 'r log_arg = ArgStr string | ArgVersions "'r unit_value set"

text \<open>
  \<open>_get_os_origin\<close>: the loop over \<open>("openstack-origin", "source")\<close>; \<open>None\<close> when
  the loop ends without returning. \<open>self.config.get(origin)\<close> is true for a dict that
  is present and not empty, and \<open>self.config[origin]\<close> is then that dict.
\<close>

fun get_os_origin_loop :: "(string \<times> (string \<times> string) list) list \<Rightarrow> string list \<Rightarrow> string option" where
  "get_os_origin_loop cfg [] = None"
| "get_os_origin_loop cfg (origin # rest) =
     (case map_of cfg origin of
        None \<Rightarrow> get_os_origin_loop cfg rest
      | Some d \<Rightarrow>
          if d \<noteq> [] then Some (dict_get d ''value'' '''')
          else get_os_origin_loop cfg rest)"

definition get_os_origin :: "'r Application \<Rightarrow> 'r log_arg log_record list \<times> string" where
  "get_os_origin self =
     (case get_os_origin_loop (config self) [''openstack-origin'', ''source''] of
        Some v \<Rightarrow> ([], v)
      | None \<Rightarrow>
          ([(WARNING, ''Failed to get origin for %s, no origin config found'',
             [ArgStr (Application.name self)])], ''''))"

text \<open>
  One turn of the loop of \<open>__post_init__\<close>, on the unit map and the log.
  \<open>self.units\<close> is a \<open>defaultdict(dict)\<close>: reading a missing unit gives the empty dict.
  \<open>lookup\<close> is \<open>OpenStackCodenameLookup.lookup\<close>, \<open>self_charm\<close> and \<open>self_name\<close> are
  \<open>self.charm\<close> and \<open>self.name\<close>.
\<close>

definition post_init_unit ::
  "(string \<Rightarrow> string \<Rightarrow> ('r::linorder) list) \<Rightarrow> string \<Rightarrow> string
   \<Rightarrow> (string \<times> (string \<times> 'r unit_value) list) list \<times> 'r log_arg log_record list
   \<Rightarrow> string \<times> UnitStatus
   \<Rightarrow> (string \<times> (string \<times> 'r unit_value) list) list \<times> 'r log_arg log_record list" where
  "post_init_unit lookup self_charm self_name acc item =
     (let (self_units, logged) = acc;
          (unit, unit_status) = item;
          workload_version = UnitStatus.workload_version unit_status;
          d = AList.update ''workload_version'' (Str workload_version) (dict_get self_units unit []);
          compatible_os_versions = lookup self_charm workload_version
      in (case compatible_os_versions of
            r # rs \<Rightarrow>
              (AList.update unit (AList.update ''os_version'' (Release (py_max r rs)) d) self_units,
               logged)
          | [] \<Rightarrow>
              (AList.update unit (AList.update ''os_version'' NoneValue d) self_units,
               logged @
               [(WARNING,
                 ''No compatible OpenStack versions were found to %s with workload version %s'',
                 [ArgStr self_name, ArgStr workload_version])])))"

text \<open>
  \<open>__post_init__\<close>, on the object as the generated \<open>__init__\<close> leaves it.
  \<open>extract_charm_name_from_url\<close> (\<open>cou/utils/juju_utils.py\<close>) and the lookup are
  parameters. The result is the log and the initialised object.
\<close>

definition post_init ::
  "(string \<Rightarrow> string) \<Rightarrow> (string \<Rightarrow> string \<Rightarrow> ('r::linorder) list) \<Rightarrow> 'r Application
   \<Rightarrow> 'r log_arg log_record list \<times> (exn + 'r Application)" where
  "post_init extract_charm_name_from_url lookup self =
     (let self1 = self\<lparr>charm := extract_charm_name_from_url (ApplicationStatus.charm (status self))\<rparr>;
          self2 = self1\<lparr>channel := charm_channel (status self1)\<rparr>
      in (case list_getitem (py_split CHR '':'' (ApplicationStatus.charm (status self2))) 0 of
            Inl e \<Rightarrow> ([], Inl e)
          | Inr origin \<Rightarrow>
              (let self3 = self2\<lparr>charm_origin := origin\<rparr>;
                   (logged, os_origin_value) = get_os_origin self3;
                   self4 = self3\<lparr>os_origin := os_origin_value\<rparr>;
                   (self_units, logged') =
                     foldl (post_init_unit lookup (Application.charm self4) (Application.name self4))
                       (Application.units self4, logged)
                       (ApplicationStatus.units (status self4))
               in (logged', Inr (self4\<lparr>units := self_units\<rparr>)))))"

text \<open>\<open>__hash__\<close>; \<open>py_hash\<close> is the built-in \<open>hash\<close> on strings.\<close>

definition Application_hash :: "(string \<Rightarrow> int) \<Rightarrow> 'r Application \<Rightarrow> int" where
  "Application_hash py_hash self = py_hash (Application.name self @ Application.charm self)"

text \<open>\<open>__eq__\<close>.\<close>

definition Application_eq :: "'r Application \<Rightarrow> 'r Application \<Rightarrow> bool" where
  "Application_eq self other =
     (Application.name other = Application.name self \<and>
      Application.charm other = Application.charm self)"

text \<open>\<open>unit_values.get("os_version")\<close>: \<open>None\<close> for a missing key.\<close>

definition get_os_version :: "(string \<times> 'r unit_value) list \<Rightarrow> 'r unit_value" where
  "get_os_version unit_values = dict_get unit_values ''os_version'' NoneValue"

text \<open>
  The property \<open>current_os_release\<close>. The set comprehension is the list of the values
  without repetitions; \<open>pop\<close> on a set of one element returns it.
\<close>

definition current_os_release ::
  "'r Application \<Rightarrow> 'r log_arg log_record list \<times> (exn + 'r unit_value)" where
  "current_os_release self =
     (let os_versions =
            remdups (map get_os_version (map snd (Application.units self)))
      in (case os_versions of
            [] \<Rightarrow> ([], Inr NoneValue)
          | [v] \<Rightarrow> ([], Inr v)
          | _ \<Rightarrow>
              ([(ERROR,
                 ''Units of application %s are running mismatched OpenStack versions: %s. This is not currently handled.'',
                 [ArgStr (Application.name self), ArgVersions (set os_versions)])],
               Inl MismatchedOpenStackVersions)))"

section \<open>\<open>cou/utils/app_utils.py\<close>: application utilities\<close>

text \<open>
  \<open>stringify_units\<close>. The iterable is the list of its items in iteration order;
  \<open>sorted\<close> is a stable sort, here insertion sort.
\<close>

definition stringify_units :: "Unit list \<Rightarrow> string" where
  "stringify_units unit_list =
     (let sorted_unit_names = sort (map Unit.name unit_list)
      in join '', '' sorted_unit_names)"

text \<open>
  The remote side. \<open>Model\<close> (\<open>cou/utils/juju_utils.py\<close>) is used through
  \<open>run_on_unit\<close> only; it is the function that answers a call (unit name, command,
  timeout) after the calls issued so far: with the result dict, or with the exception
  that \<open>run_on_unit\<close> raises. The state that the routines thread is the list of the
  calls issued and the debug log of the module.
\<close>

type_synonym command_call = "string \<times> string \<times> nat"

type_synonym Model = "command_call list \<Rightarrow> command_call \<Rightarrow> exn + (string \<times> string) list"

record world =
  issued :: "command_call list"
  logged :: "json log_record list"

text \<open>
  A routine takes the state and returns the new state with the exception raised or the
  value returned; \<open>and_then\<close> runs the rest unless an exception was raised.
\<close>

type_synonym 'a routine = "world \<Rightarrow> world \<times> (exn + 'a)"

definition succeed :: "'a \<Rightarrow> 'a routine" where
  "succeed x w = (w, Inr x)"



definition and_then :: "'a routine \<Rightarrow> ('a \<Rightarrow> 'b routine) \<Rightarrow> 'b routine" where
  "and_then m f w = (case m w of (w', Inl e) \<Rightarrow> (w', Inl e) | (w', Inr x) \<Rightarrow> f x w')"

definition run_on_unit :: "Model \<Rightarrow> string \<Rightarrow> string \<Rightarrow> nat \<Rightarrow> (string \<times> string) list routine" where
  "run_on_unit model unit_name command timeout w =
     (w\<lparr>issued := issued w @ [(unit_name, command, timeout)]\<rparr>,
      model (issued w) (unit_name, command, timeout))"


text \<open>
  \<open>upgrade_packages\<close>. \<open>packages_to_hold\<close> is \<open>None\<close> or a list of package names.
\<close>

definition upgrade_packages :: "string \<Rightarrow> Model \<Rightarrow> string list option \<Rightarrow> unit routine" where
  "upgrade_packages unit model packages_to_hold =
     (let dpkg_opts = ''-o Dpkg::Options::=--force-confnew -o Dpkg::Options::=--force-confdef'';
          command = ''apt-get update && apt-get dist-upgrade '' @ dpkg_opts @
                    '' -y && apt-get autoremove -y'';
          command' =
            (case packages_to_hold of
               None \<Rightarrow> command
             | Some [] \<Rightarrow> command
             | Some ps \<Rightarrow>
                 (let packages = join '' '' ps
                  in ''apt-mark hold '' @ packages @ '' && '' @ command @
                     '' ; apt-mark unhold '' @ packages))
      in and_then (run_on_unit model unit command' 600) (\<lambda>_. succeed ()))"










section \<open>The release model and the plan generator\<close>

text \<open>
  Of \<open>cou/steps\<close>, \<open>cou/apps/base.py\<close> and \<open>cou/utils/openstack.py\<close> only the tests
  in \<open>tests/unit/steps/test_plan.py\<close> are among the sources. The definitions of this
  section follow the specification, and take the descriptions and the deferred calls of
  the steps from the expected plans of those tests.
\<close>

text \<open>
  Modelled from the spec: the release sequence (\<open>OpenStackRelease\<close> is missing). A
  release is its codename; \<open>releases\<close> is the canonical sequence, the rank of a release
  is its position there, and next and previous are defined except at the boundaries.
\<close>

fun index_of :: "'a list \<Rightarrow> 'a \<Rightarrow> nat option" where
  "index_of [] x = None"
| "index_of (y # ys) x = (if x = y then Some 0 else map_option Suc (index_of ys x))"

definition next_release :: "string list \<Rightarrow> string \<Rightarrow> string option" where
  "next_release releases release =
     (case index_of releases release of
        None \<Rightarrow> None
      | Some i \<Rightarrow> if Suc i < length releases then Some (releases ! Suc i) else None)"

definition previous_release :: "string list \<Rightarrow> string \<Rightarrow> string option" where
  "previous_release releases release =
     (case index_of releases release of
        None \<Rightarrow> None
      | Some i \<Rightarrow> if 0 < i then Some (releases ! (i - 1)) else None)"

text \<open>
  Modelled from the spec: \<open>determine_upgrade_target\<close> (\<open>cou/steps/plan.py\<close> is
  missing), the \<open>resolve\<close> of section 4.1. \<open>supported\<close> is the compatibility window:
  for a series, the releases supported on it, in order. A current release without a next
  release raises \<open>NoTargetError\<close>, as \<open>test_determine_upgrade_target_no_next_release\<close>
  expects.
\<close>

definition determine_upgrade_target ::
  "string list \<Rightarrow> (string \<times> string list) list \<Rightarrow> string option \<Rightarrow> string option \<Rightarrow> exn + string" where
  "determine_upgrade_target releases supported current_release current_series =
     (case current_release of
        None \<Rightarrow> Inl NoTargetError
      | Some release \<Rightarrow>
          (case current_series of
             None \<Rightarrow> Inl NoTargetError
           | Some a_series \<Rightarrow>
               (let window = dict_get supported a_series []
                in if release \<notin> set window then Inl OutOfSupportRange
                   else if release = last window then Inl HighestReleaseAchieved
                   else (case next_release releases release of
                           None \<Rightarrow> Inl NoTargetError
                         | Some target \<Rightarrow> Inr target))))"

text \<open>
  Modelled from the spec: the step tree of section 3 (\<open>cou/steps/__init__.py\<close> is
  missing). A step has a kind, a description, the parallel flag, an optional deferred
  call and its sub-steps. The deferred calls are those of section 6, with the arguments
  that the tests pass; an argument that a call leaves out is \<open>None\<close>.
\<close>

datatype step_kind =
    UpgradePlan
  | ApplicationUpgradePlan
  | PreUpgradeStep
  | UpgradeStep
  | PostUpgradeStep
  | UnitUpgradeStep

datatype deferred_call =
    WaitForActiveIdle nat "string list option" "nat option" "bool option"
  | UpgradeCharm string string "string option"
  | SetApplicationConfig string "(string \<times> json) list"
  | UpgradePackages string "string list option"
  | Backup
  | CheckUpgrade string string

datatype step =
  Step (kind: step_kind) (description: string) (parallel: bool) (coro: "deferred_call option")
    (sub_steps: "step list")

text \<open>The steps of a tree, the root first.\<close>

fun all_steps :: "step \<Rightarrow> step list" where
  "all_steps (Step k d p c subs) = Step k d p c subs # concat (map all_steps subs)"

fun is_wait :: "step \<Rightarrow> bool" where
  "is_wait (Step k d p (Some (WaitForActiveIdle t apps idle blocked)) subs) = True"
| "is_wait _ = False"

text \<open>
  Modelled from the spec: the application that the generator plans for (the class
  \<open>OpenStackApplication\<close> is missing), with the attributes that the expected plans read
  and the role attribute of section 4.4.
\<close>

record planned_app =
  app_name :: string
  app_charm :: string
  app_series :: string
  app_units :: "Unit list"
  origin_setting :: string
  is_subordinate :: bool

definition quoted :: "string \<Rightarrow> string" where
  "quoted s = [CHR 0x27] @ s @ [CHR 0x27]"

text \<open>The coordinator set of section 4.4, by charm.\<close>

definition coordinator_charms :: "string list" where
  "coordinator_charms = [''rabbitmq-server'', ''ceph-mon'', ''keystone'']"

text \<open>Step 6 of section 4.4.\<close>

definition wait_step :: "string \<Rightarrow> planned_app \<Rightarrow> step" where
  "wait_step the_model app =
     (if app_charm app \<in> set coordinator_charms
      then Step PostUpgradeStep (''Wait 1800s for model '' @ the_model @ '' to reach the idle state.'')
             False (Some (WaitForActiveIdle 1800 None None None)) []
      else Step PostUpgradeStep (''Wait 300s for app '' @ app_name app @ '' to reach the idle state.'')
             False (Some (WaitForActiveIdle 300 (Some [app_name app]) None None)) [])"

text \<open>Steps 2 and 4 of section 4.4: refresh on the current channel, switch to the target's.\<close>

definition refresh_step :: "planned_app \<Rightarrow> string \<Rightarrow> step" where
  "refresh_step app current =
     Step PreUpgradeStep
       (''Refresh '' @ quoted (app_name app) @ '' to the latest revision of '' @
        quoted (current @ ''/stable''))
       False (Some (UpgradeCharm (app_name app) (current @ ''/stable'') None)) []"

definition switch_step :: "planned_app \<Rightarrow> string \<Rightarrow> step" where
  "switch_step app target =
     Step UpgradeStep
       (''Upgrade '' @ quoted (app_name app) @ '' to the new channel: '' @
        quoted (target @ ''/stable''))
       False (Some (UpgradeCharm (app_name app) (target @ ''/stable'') None)) []"

text \<open>
  Modelled from the spec: the plan of one application
  (\<open>OpenStackApplication.generate_upgrade_plan\<close> is missing), the seven steps of section
  4.4 for a principal and steps 2 and 4 for a subordinate. \<open>current\<close> is the release
  before \<open>target\<close>.
\<close>

definition generate_upgrade_plan :: "string \<Rightarrow> planned_app \<Rightarrow> string \<Rightarrow> string \<Rightarrow> step" where
  "generate_upgrade_plan the_model app current target =
     Step ApplicationUpgradePlan
       (''Upgrade plan for '' @ quoted (app_name app) @ '' to '' @ target) False None
       (if is_subordinate app then [refresh_step app current, switch_step app target]
        else
          [Step PreUpgradeStep
             (''Upgrade software packages of '' @ quoted (app_name app) @
              '' from the current APT repositories'')
             True None
             (map (\<lambda>u. Step UnitUpgradeStep (''Upgrade software packages on unit '' @ Unit.name u)
                          False (Some (UpgradePackages (Unit.name u) None)) [])
                (app_units app)),
           refresh_step app current,
           Step UpgradeStep
             (''Change charm config of '' @ quoted (app_name app) @ '' '' @
              quoted ''action-managed-upgrade'' @ '' to False.'')
             False (Some (SetApplicationConfig (app_name app) [(''action-managed-upgrade'', JBool False)])) [],
           switch_step app target,
           Step UpgradeStep
             (''Change charm config of '' @ quoted (app_name app) @ '' '' @
              quoted (origin_setting app) @ '' to '' @
              quoted (''cloud:'' @ app_series app @ ''-'' @ target))
             False
             (Some (SetApplicationConfig (app_name app)
                [(origin_setting app, JStr (''cloud:'' @ app_series app @ ''-'' @ target))])) [],
           wait_step the_model app,
           Step PostUpgradeStep
             (''Check if the workload of '' @ quoted (app_name app) @ '' has been upgraded'')
             False (Some (CheckUpgrade (app_name app) target)) []])"

text \<open>
  Modelled from the spec: \<open>create_upgrade_group\<close> (\<open>cou/steps/plan.py\<close> is missing),
  the aggregate generation of section 4.4. \<open>generate\<close> is the generator of the plan of
  one application for the target; a Halt drops the application, any other exception ends
  the call. The fourth argument of the tests, \<open>lambda *_: True\<close>, has no counterpart in
  the specification and is not modelled.
\<close>

fun create_upgrade_group_loop ::
  "('app \<Rightarrow> 'target \<Rightarrow> exn + step) \<Rightarrow> 'target \<Rightarrow> 'app list \<Rightarrow> step list \<Rightarrow> exn + step list" where
  "create_upgrade_group_loop generate target [] plans = Inr plans"
| "create_upgrade_group_loop generate target (app # apps) plans =
     (case generate app target of
        Inr app_upgrade_plan \<Rightarrow>
          create_upgrade_group_loop generate target apps (plans @ [app_upgrade_plan])
      | Inl HaltUpgradePlanGeneration \<Rightarrow> create_upgrade_group_loop generate target apps plans
      | Inl e \<Rightarrow> Inl e)"

definition create_upgrade_group ::
  "('app \<Rightarrow> 'target \<Rightarrow> exn + step) \<Rightarrow> 'app list \<Rightarrow> 'target \<Rightarrow> string \<Rightarrow> exn + step" where
  "create_upgrade_group generate apps target a_description =
     (case create_upgrade_group_loop generate target apps [] of
        Inl e \<Rightarrow> Inl e
      | Inr plans \<Rightarrow> Inr (Step UpgradePlan a_description False None plans))"

text \<open>
  Modelled from the spec: the result of the analysis and \<open>generate_plan\<close>
  (\<open>cou/steps/analyze.py\<close> and \<open>cou/steps/plan.py\<close> are missing), the deployment-wide
  plan of section 4.4: the target is resolved, then the plan holds the idle check, the
  backup and the groups of the control plane, principals before subordinates. The plan
  of one application is the parameter \<open>generate\<close>. The command-line arguments that the
  test passes are outside the core of the specification and are not modelled.
\<close>

record analysis =
  analysis_model :: string
  apps_control_plane :: "planned_app list"
  apps_data_plane :: "planned_app list"
  current_cloud_os_release :: "string option"
  current_cloud_series :: "string option"

definition verify_idle_step :: step where
  "verify_idle_step =
     Step PreUpgradeStep ''Verify that all OpenStack applications are in idle state'' False
       (Some (WaitForActiveIdle 11 None (Some 10) (Some True))) []"

definition backup_step :: step where
  "backup_step = Step PreUpgradeStep ''Backup mysql databases'' False (Some Backup) []"

definition generate_plan ::
  "string list \<Rightarrow> (string \<times> string list) list \<Rightarrow> (planned_app \<Rightarrow> string \<Rightarrow> exn + step)
   \<Rightarrow> analysis \<Rightarrow> exn + step" where
  "generate_plan releases supported generate analysis_result =
     (case determine_upgrade_target releases supported
             (current_cloud_os_release analysis_result) (current_cloud_series analysis_result) of
        Inl e \<Rightarrow> Inl e
      | Inr target \<Rightarrow>
          (case create_upgrade_group generate
                  (filter (\<lambda>app. \<not> is_subordinate app) (apps_control_plane analysis_result))
                  target ''Control Plane principal(s) upgrade plan'' of
             Inl e \<Rightarrow> Inl e
           | Inr control_plane_principals \<Rightarrow>
               (case create_upgrade_group generate
                       (filter is_subordinate (apps_control_plane analysis_result))
                       target ''Control Plane subordinate(s) upgrade plan'' of
                  Inl e \<Rightarrow> Inl e
                | Inr control_plane_subordinates \<Rightarrow>
                    Inr (Step UpgradePlan
                           (''Upgrade cloud from '' @
                            quoted (case current_cloud_os_release analysis_result of
                                      None \<Rightarrow> [] | Some r \<Rightarrow> r) @
                            '' to '' @ quoted target)
                           False None
                           [verify_idle_step, backup_step,
                            control_plane_principals, control_plane_subordinates]))))"

section \<open>Example applications\<close>

text \<open>
  Concrete objects for evaluation, with releases numbered by rank (\<open>'r = nat\<close>):
  a keystone application with three units, as the docstring of the class shows them.
\<close>

definition keystone_status :: ApplicationStatus where
  "keystone_status =
     \<lparr>ApplicationStatus.charm = ''ch:amd64/focal/keystone-638'',
      charm_channel = ''ussuri/stable'',
      series = ''focal'',
      ApplicationStatus.units =
        [(''keystone/0'', \<lparr>workload_version = ''17.0.1''\<rparr>),
         (''keystone/1'', \<lparr>workload_version = ''18.1.0''\<rparr>),
         (''keystone/2'', \<lparr>workload_version = ''0.0.1''\<rparr>)]\<rparr>"

definition keystone_units :: "nat unit_value \<Rightarrow> nat unit_value \<Rightarrow> (string \<times> (string \<times> nat unit_value) list) list" where
  "keystone_units v w =
     [(''keystone/0'', [(''workload_version'', Str ''17.0.1''), (''os_version'', v)]),
      (''keystone/1'', [(''workload_version'', Str ''17.0.1''), (''os_version'', v)]),
      (''keystone/2'', [(''workload_version'', Str ''18.1.0''), (''os_version'', w)])]"

definition keystone :: "(string \<times> (string \<times> nat unit_value) list) list \<Rightarrow> nat Application" where
  "keystone us =
     \<lparr>name = ''keystone'',
      status = keystone_status,
      config = [(''openstack-origin'', [(''value'', ''distro'')])],
      model_name = ''test_model'',
      charm = ''keystone'',
      charm_origin = ''ch'',
      os_origin = ''distro'',
      channel = ''ussuri/stable'',
      units = us\<rparr>"

text \<open>
  A lookup table for the examples, and a ceph-mon unit: the model answers the two query
  commands with texts that \<open>ceph_json_loads\<close> parses into the given documents. The
  version lines have the form shown in the comment of \<open>_get_current_osd_release\<close>.
\<close>

definition example_lookup :: "string \<Rightarrow> string \<Rightarrow> nat list" where
  "example_lookup charm_name version =
     (if charm_name = ''keystone'' \<and> version = ''17.0.1'' then [3]
      else if charm_name = ''keystone'' \<and> version = ''18.1.0'' then [4, 5, 4]
      else [])"








definition ceph_releases :: "string list" where
  "ceph_releases = [''octopus'', ''pacific'', ''quincy'']"


text \<open>
  Tables and applications for the examples of the plan generator: the releases from
  train to zed with the window of focal that the tests of \<open>determine_upgrade_target\<close>
  use, the three applications of \<open>test_generate_plan\<close>, and a generator that halts
  for the application named \<open>halted\<close> and raises \<open>Exception("test")\<close> for the one
  named \<open>broken\<close>.
\<close>

definition os_releases :: "string list" where
  "os_releases = [''train'', ''ussuri'', ''victoria'', ''wallaby'', ''xena'', ''yoga'', ''zed'']"

definition supported_releases :: "(string \<times> string list) list" where
  "supported_releases = [(''focal'', [''ussuri'', ''victoria'', ''wallaby'', ''xena'', ''yoga''])]"

definition keystone_app :: planned_app where
  "keystone_app =
     \<lparr>app_name = ''keystone'', app_charm = ''keystone'', app_series = ''focal'',
      app_units = [\<lparr>Unit.name = ''keystone/0''\<rparr>, \<lparr>Unit.name = ''keystone/1''\<rparr>],
      origin_setting = ''openstack-origin'', is_subordinate = False\<rparr>"

definition cinder_app :: planned_app where
  "cinder_app =
     \<lparr>app_name = ''cinder'', app_charm = ''cinder'', app_series = ''focal'',
      app_units = [\<lparr>Unit.name = ''cinder/0''\<rparr>],
      origin_setting = ''openstack-origin'', is_subordinate = False\<rparr>"

definition keystone_ldap_app :: planned_app where
  "keystone_ldap_app =
     \<lparr>app_name = ''keystone-ldap'', app_charm = ''keystone-ldap'', app_series = ''focal'',
      app_units = [], origin_setting = [], is_subordinate = True\<rparr>"

definition example_generate :: "planned_app \<Rightarrow> string \<Rightarrow> exn + step" where
  "example_generate app target =
     (if app_name app = ''halted'' then Inl HaltUpgradePlanGeneration
      else if app_name app = ''broken'' then Inl (OtherException ''test'')
      else (case previous_release os_releases target of
              None \<Rightarrow> Inl (OtherException ''no previous release'')
            | Some current \<Rightarrow> Inr (generate_upgrade_plan ''test_model'' app current target)))"

definition example_analysis :: analysis where
  "example_analysis =
     \<lparr>analysis_model = ''test_model'',
      apps_control_plane = [keystone_app, cinder_app, keystone_ldap_app],
      apps_data_plane = [],
      current_cloud_os_release = Some ''ussuri'',
      current_cloud_series = Some ''focal''\<rparr>"

section \<open>Equality and hash of applications\<close>

text \<open>
  Claim C7. \<open>a == b\<close> is \<open>a.__eq__(b)\<close>, here \<open>Application_eq a b\<close>. It holds exactly
  when the names and the charms are equal; equal applications have equal hashes, whatever
  the built-in string hash is; and replacing every other field of either side (status,
  config, model name, charm origin, origin, channel, units) leaves the comparison as it is.
\<close>

theorem Application_eq_name_charm:
  fixes a b :: "'r Application"
  shows "(Application_eq a b \<longleftrightarrow>
            Application.name a = Application.name b \<and> Application.charm a = Application.charm b)
       \<and> (Application_eq a b \<longrightarrow> Application_hash py_hash a = Application_hash py_hash b)
       \<and> Application_eq (a\<lparr>status := s, config := c, model_name := m, charm_origin := co,
             os_origin := oo, channel := ch, units := us\<rparr>) b = Application_eq a b
       \<and> Application_eq a (b\<lparr>status := s, config := c, model_name := m, charm_origin := co,
             os_origin := oo, channel := ch, units := us\<rparr>) = Application_eq a b"
  by (auto simp: Application_eq_def Application_hash_def)

theorem Application_eq_name_charm_witness:
  "Application_eq (keystone []) (keystone (keystone_units (Release 3) NoneValue))
   \<and> Application_hash (\<lambda>s. int (length s)) (keystone []) =
       Application_hash (\<lambda>s. int (length s)) (keystone (keystone_units (Release 3) NoneValue))
   \<and> Application.units (keystone []) \<noteq>
       Application.units (keystone (keystone_units (Release 3) NoneValue))"
proof -
  have e: "Application_eq (keystone []) (keystone (keystone_units (Release 3) NoneValue))"
    by (simp add: Application_eq_def keystone_def)
  have u: "Application.units (keystone []) \<noteq>
      Application.units (keystone (keystone_units (Release 3) NoneValue))"
    by (simp add: keystone_def keystone_units_def)
  from e u Application_eq_name_charm
    [of "keystone []" "keystone (keystone_units (Release 3) NoneValue)" "\<lambda>s. int (length s)"]
  show ?thesis by blast
qed

section \<open>The current release of an application\<close>

lemma remdups_all_same: "xs \<noteq> [] \<Longrightarrow> \<forall>x\<in>set xs. x = v \<Longrightarrow> remdups xs = [v]"
proof (induction xs)
  case Nil
  then show ?case by simp
next
  case (Cons x xs)
  show ?case
  proof (cases "xs = []")
    case True
    with Cons.prems show ?thesis by simp
  next
    case False
    with Cons have "remdups xs = [v]" by simp
    moreover from False Cons.prems have "x \<in> set xs" by (cases xs) auto
    moreover from Cons.prems have "x = v" by simp
    ultimately show ?thesis by simp
  qed
qed

lemma remdups_two_distinct:
  assumes "a \<in> set xs" and "b \<in> set xs" and "a \<noteq> b"
  shows "\<exists>x y zs. remdups xs = x # y # zs"
proof -
  have "{a, b} \<subseteq> set xs" using assms by simp
  then have "card {a, b} \<le> card (set xs)" by (intro card_mono) simp_all
  then have "2 \<le> length (remdups xs)" using assms(3) by (simp add: length_remdups_card_conv)
  then show ?thesis by (cases "remdups xs"; cases "tl (remdups xs)") auto
qed

lemma current_os_release_single:
  assumes "Application.units a \<noteq> []"
    and "\<forall>u\<in>set (Application.units a). get_os_version (snd u) = v"
  shows "current_os_release a = ([], Inr v)"
proof -
  let ?vs = "map get_os_version (map snd (Application.units a))"
  from assms have "?vs \<noteq> []" and "\<forall>x\<in>set ?vs. x = v" by auto
  then have "remdups ?vs = [v]" by (rule remdups_all_same)
  then show ?thesis by (simp add: current_os_release_def)
qed

lemma current_os_release_mismatch:
  assumes "u1 \<in> set (Application.units a)" and "u2 \<in> set (Application.units a)"
    and "get_os_version (snd u1) \<noteq> get_os_version (snd u2)"
  shows "snd (current_os_release a) = Inl MismatchedOpenStackVersions"
proof -
  let ?vs = "map get_os_version (map snd (Application.units a))"
  from assms(1,2) have "get_os_version (snd u1) \<in> set ?vs" "get_os_version (snd u2) \<in> set ?vs"
    by (force simp: image_iff)+
  then have "\<exists>x y zs. remdups ?vs = x # y # zs"
    using assms(3) by (rule remdups_two_distinct)
  then obtain x y zs where "remdups ?vs = x # y # zs" by blast
  then show ?thesis by (simp add: current_os_release_def)
qed

text \<open>
  Claim C1. An application without units has the current release \<open>None\<close> and nothing
  is raised or logged; one with at least one unit, all of whose units carry the release
  \<open>r\<close>, has the current release \<open>r\<close>; one with two units that carry two different
  releases raises \<open>MismatchedOpenStackVersions\<close>.
\<close>

theorem current_os_release_cases:
  fixes a :: "'r Application"
  shows "(Application.units a = [] \<longrightarrow> current_os_release a = ([], Inr NoneValue))
       \<and> (Application.units a \<noteq> [] \<and>
            (\<forall>u\<in>set (Application.units a). get_os_version (snd u) = Release r) \<longrightarrow>
          current_os_release a = ([], Inr (Release r)))
       \<and> ((\<exists>u1\<in>set (Application.units a). \<exists>u2\<in>set (Application.units a). \<exists>r1 r2.
              get_os_version (snd u1) = Release r1 \<and> get_os_version (snd u2) = Release r2 \<and>
              r1 \<noteq> r2) \<longrightarrow>
          snd (current_os_release a) = Inl MismatchedOpenStackVersions)"
proof (intro conjI impI)
  assume "Application.units a = []"
  then show "current_os_release a = ([], Inr NoneValue)"
    by (simp add: current_os_release_def)
next
  assume "Application.units a \<noteq> [] \<and>
    (\<forall>u\<in>set (Application.units a). get_os_version (snd u) = Release r)"
  then show "current_os_release a = ([], Inr (Release r))"
    by (simp add: current_os_release_single)
next
  assume "\<exists>u1\<in>set (Application.units a). \<exists>u2\<in>set (Application.units a). \<exists>r1 r2.
              get_os_version (snd u1) = Release r1 \<and> get_os_version (snd u2) = Release r2 \<and>
              r1 \<noteq> r2"
  then obtain u1 u2 r1 r2 where "u1 \<in> set (Application.units a)" "u2 \<in> set (Application.units a)"
    and "get_os_version (snd u1) = Release r1" "get_os_version (snd u2) = Release r2" "r1 \<noteq> r2"
    by blast
  then show "snd (current_os_release a) = Inl MismatchedOpenStackVersions"
    by (intro current_os_release_mismatch [of u1 a u2]) simp_all
qed

theorem current_os_release_cases_witness:
  "Application.units (keystone []) = []
   \<and> current_os_release (keystone []) = ([], Inr NoneValue)
   \<and> Application.units (keystone (keystone_units (Release 3) (Release 3))) \<noteq> []
   \<and> current_os_release (keystone (keystone_units (Release 3) (Release 3))) = ([], Inr (Release 3))
   \<and> snd (current_os_release (keystone (keystone_units (Release 3) (Release 4)))) =
       Inl MismatchedOpenStackVersions"
proof -
  have none: "Application.units (keystone []) = []"
    by (simp add: keystone_def)
  have same: "Application.units (keystone (keystone_units (Release 3) (Release 3))) \<noteq> [] \<and>
      (\<forall>u\<in>set (Application.units (keystone (keystone_units (Release 3) (Release 3)))).
         get_os_version (snd u) = Release 3)"
    by (simp add: keystone_def keystone_units_def get_os_version_def dict_get_def)
  have two: "\<exists>u1\<in>set (Application.units (keystone (keystone_units (Release 3) (Release 4)))).
      \<exists>u2\<in>set (Application.units (keystone (keystone_units (Release 3) (Release 4)))). \<exists>r1 r2.
        get_os_version (snd u1) = Release r1 \<and> get_os_version (snd u2) = Release r2 \<and> r1 \<noteq> r2"
    by (simp add: keystone_def keystone_units_def get_os_version_def dict_get_def)
  from none same two
    current_os_release_cases [of "keystone []"]
    current_os_release_cases [of "keystone (keystone_units (Release 3) (Release 3))" 3]
    current_os_release_cases [of "keystone (keystone_units (Release 3) (Release 4))"]
  show ?thesis by blast
qed

text \<open>
  Claim C9. \<open>None\<close> is a value of the comparison set like any other: when every unit
  of an application with at least one unit has the release \<open>None\<close> (or no
  \<open>"os_version"\<close> key), the current release is \<open>None\<close> and nothing is raised; when one
  unit carries a release and another carries \<open>None\<close>, \<open>MismatchedOpenStackVersions\<close>
  is raised although one release only is present.
\<close>

theorem current_os_release_unresolved:
  fixes a :: "'r Application"
  shows "(Application.units a \<noteq> [] \<and>
            (\<forall>u\<in>set (Application.units a). get_os_version (snd u) = NoneValue) \<longrightarrow>
          current_os_release a = ([], Inr NoneValue))
       \<and> ((\<exists>u1\<in>set (Application.units a). \<exists>u2\<in>set (Application.units a).
              get_os_version (snd u1) = Release r \<and> get_os_version (snd u2) = NoneValue) \<longrightarrow>
          snd (current_os_release a) = Inl MismatchedOpenStackVersions)"
proof (intro conjI impI)
  assume "Application.units a \<noteq> [] \<and>
    (\<forall>u\<in>set (Application.units a). get_os_version (snd u) = NoneValue)"
  then show "current_os_release a = ([], Inr NoneValue)"
    by (simp add: current_os_release_single)
next
  assume "\<exists>u1\<in>set (Application.units a). \<exists>u2\<in>set (Application.units a).
              get_os_version (snd u1) = Release r \<and> get_os_version (snd u2) = NoneValue"
  then obtain u1 u2 where "u1 \<in> set (Application.units a)" "u2 \<in> set (Application.units a)"
    and "get_os_version (snd u1) = Release r" "get_os_version (snd u2) = NoneValue"
    by blast
  then show "snd (current_os_release a) = Inl MismatchedOpenStackVersions"
    by (intro current_os_release_mismatch [of u1 a u2]) simp_all
qed

theorem current_os_release_unresolved_witness:
  "Application.units (keystone (keystone_units NoneValue NoneValue)) \<noteq> []
   \<and> current_os_release (keystone (keystone_units NoneValue NoneValue)) = ([], Inr NoneValue)
   \<and> snd (current_os_release (keystone (keystone_units (Release 3) NoneValue))) =
       Inl MismatchedOpenStackVersions"
proof -
  have unresolved: "Application.units (keystone (keystone_units NoneValue NoneValue)) \<noteq> [] \<and>
      (\<forall>u\<in>set (Application.units (keystone (keystone_units NoneValue NoneValue))).
         get_os_version (snd u) = NoneValue)"
    by (simp add: keystone_def keystone_units_def get_os_version_def dict_get_def)
  have mixed: "\<exists>u1\<in>set (Application.units (keystone (keystone_units (Release 3) NoneValue))).
      \<exists>u2\<in>set (Application.units (keystone (keystone_units (Release 3) NoneValue))).
        get_os_version (snd u1) = Release 3 \<and> get_os_version (snd u2) = NoneValue"
    by (simp add: keystone_def keystone_units_def get_os_version_def dict_get_def)
  from unresolved mixed
    current_os_release_unresolved [of "keystone (keystone_units NoneValue NoneValue)"]
    current_os_release_unresolved [of "keystone (keystone_units (Release 3) NoneValue)" 3]
  show ?thesis by blast
qed

section \<open>Construction of an application from a status snapshot\<close>

lemma py_max_Max: "py_max x xs = Max (set (x # xs))"
  unfolding py_max_def
proof (induction xs arbitrary: x)
  case Nil
  then show ?case by simp
next
  case (Cons y ys)
  have "Max (set (x # y # ys)) = Max (set ((if x < y then y else x) # ys))"
  proof (cases ys)
    case Nil
    then show ?thesis by (auto simp: max_def)
  next
    case (Cons z zs)
    have "Max (insert x (insert y (set ys))) = max (max x y) (Max (set ys))"
      using Cons by (simp add: max.assoc)
    moreover have "Max (insert (if x < y then y else x) (set ys)) = max (if x < y then y else x) (Max (set ys))"
      using Cons by simp
    moreover have "max x y = (if x < y then y else x)" by (auto simp: max_def)
    ultimately show ?thesis by simp
  qed
  with Cons.IH [of "if x < y then y else x"] show ?case by simp
qed

lemma map_of_update_same: "map_of (AList.update k v al) k = Some v"
  by (simp add: update_conv')

lemma map_of_update_other: "k' \<noteq> k \<Longrightarrow> map_of (AList.update k v al) k' = map_of al k'"
  by (simp add: update_conv')

lemma post_init_unit_step:
  "post_init_unit lookup ch nm (us0, lg0) (u, st) = (us1, lg1) \<Longrightarrow>
     (\<forall>u'. u' \<noteq> u \<longrightarrow> map_of us1 u' = map_of us0 u') \<and>
     (\<exists>d. map_of us1 u = Some d \<and>
          map_of d ''workload_version'' = Some (Str (workload_version st)) \<and>
          map_of d ''os_version'' =
            Some (case lookup ch (workload_version st) of
                    [] \<Rightarrow> NoneValue
                  | r # rs \<Rightarrow> Release (Max (set (r # rs))))) \<and>
     lg1 = lg0 @ (if lookup ch (workload_version st) = []
                  then [(WARNING,
                         ''No compatible OpenStack versions were found to %s with workload version %s'',
                         [ArgStr nm, ArgStr (workload_version st)])]
                  else [])"
  by (cases "lookup ch (workload_version st)")
    (auto simp: post_init_unit_def Let_def update_conv' py_max_Max simp del: set_simps Max_insert)

lemma post_init_loop:
  assumes "distinct (map fst sus)"
    and "foldl (post_init_unit lookup ch nm) (us0, lg0) sus = (us', lg')"
  shows "(\<forall>u'. u' \<notin> fst ` set sus \<longrightarrow> map_of us' u' = map_of us0 u') \<and>
     (\<forall>(u, st)\<in>set sus. \<exists>d. map_of us' u = Some d \<and>
          map_of d ''workload_version'' = Some (Str (workload_version st)) \<and>
          map_of d ''os_version'' =
            Some (case lookup ch (workload_version st) of
                    [] \<Rightarrow> NoneValue
                  | r # rs \<Rightarrow> Release (Max (set (r # rs))))) \<and>
     lg' = lg0 @ map (\<lambda>(u, st). (WARNING,
                         ''No compatible OpenStack versions were found to %s with workload version %s'',
                         [ArgStr nm, ArgStr (workload_version st)]))
                 (filter (\<lambda>(u, st). lookup ch (workload_version st) = []) sus)"
  using assms
proof (induction sus arbitrary: us0 lg0)
  case Nil
  then show ?case by simp
next
  case (Cons p sus)
  obtain u st where p: "p = (u, st)" by (cases p)
  obtain us1 lg1 where step: "post_init_unit lookup ch nm (us0, lg0) (u, st) = (us1, lg1)"
    by (cases "post_init_unit lookup ch nm (us0, lg0) (u, st)")
  note s = post_init_unit_step [OF step]
  from Cons.prems p have d: "distinct (map fst sus)" and nu: "u \<notin> fst ` set sus" by auto
  from Cons.prems(2) p step
  have rest: "foldl (post_init_unit lookup ch nm) (us1, lg1) sus = (us', lg')" by simp
  note ih = Cons.IH [OF d rest]
  from ih nu have same: "map_of us' u = map_of us1 u" by blast
  have frame: "\<forall>u'. u' \<notin> fst ` set (p # sus) \<longrightarrow> map_of us' u' = map_of us0 u'"
    using ih s p by auto
  have entries: "\<forall>(u, st)\<in>set (p # sus). \<exists>d. map_of us' u = Some d \<and>
          map_of d ''workload_version'' = Some (Str (workload_version st)) \<and>
          map_of d ''os_version'' =
            Some (case lookup ch (workload_version st) of
                    [] \<Rightarrow> NoneValue
                  | r # rs \<Rightarrow> Release (Max (set (r # rs))))"
    using ih s same p by auto
  have log: "lg' = lg0 @ map (\<lambda>(u, st). (WARNING,
                         ''No compatible OpenStack versions were found to %s with workload version %s'',
                         [ArgStr nm, ArgStr (workload_version st)]))
                 (filter (\<lambda>(u, st). lookup ch (workload_version st) = []) (p # sus))"
    using ih s p by simp
  from frame entries log show ?case by blast
qed

lemma py_split_not_Nil: "py_split sep s \<noteq> []"
  by (induction s) (auto split: list.splits)

lemma get_os_origin_fields:
  "get_os_origin (self\<lparr>charm := c, channel := ch, charm_origin := co\<rparr>) = get_os_origin self"
  by (simp add: get_os_origin_def split: option.split)

text \<open>
  Claim C6. \<open>__post_init__\<close> never raises: it returns the initialised object, whose
  charm is the name extracted from the charm URL of the status. For every unit of the
  status (the keys of a dict are distinct) the unit map holds the workload version of the
  unit and, as its release, the greatest of the releases that the lookup gives for the
  charm and that workload version, or \<open>None\<close> when the lookup gives none. The log is
  the log of \<open>_get_os_origin\<close> followed by one warning for each unit without a
  compatible release, in the order of the units: the loop goes on after such a unit.
\<close>

theorem post_init_resolves_units:
  fixes self :: "('r::linorder) Application"
  assumes "distinct (map fst (ApplicationStatus.units (status self)))"
  shows "\<exists>a. post_init extract_charm_name_from_url lookup self =
           (fst (get_os_origin self) @
            map (\<lambda>(unit, st). (WARNING,
                   ''No compatible OpenStack versions were found to %s with workload version %s'',
                   [ArgStr (Application.name self), ArgStr (workload_version st)]))
              (filter (\<lambda>(unit, st). lookup (Application.charm a) (workload_version st) = [])
                 (ApplicationStatus.units (status self))),
            Inr a)
         \<and> Application.charm a = extract_charm_name_from_url (ApplicationStatus.charm (status self))
         \<and> (\<forall>(unit, st)\<in>set (ApplicationStatus.units (status self)).
               \<exists>d. map_of (Application.units a) unit = Some d \<and>
                   map_of d ''workload_version'' = Some (Str (workload_version st)) \<and>
                   get_os_version d =
                     (case lookup (Application.charm a) (workload_version st) of
                        [] \<Rightarrow> NoneValue
                      | r # rs \<Rightarrow> Release (Max (set (r # rs)))))"
proof -
  let ?ch = "extract_charm_name_from_url (ApplicationStatus.charm (status self))"
  let ?sus = "ApplicationStatus.units (status self)"
  obtain origin where origin:
    "list_getitem (py_split CHR '':'' (ApplicationStatus.charm (status self))) 0 = Inr origin"
    using py_split_not_Nil [of "CHR '':''" "ApplicationStatus.charm (status self)"]
    by (auto simp: list_getitem_def)
  obtain lg0 ov where oo: "get_os_origin self = (lg0, ov)"
    by (cases "get_os_origin self")
  obtain us' lg' where loop:
    "foldl (post_init_unit lookup ?ch (Application.name self)) (Application.units self, lg0) ?sus = (us', lg')"
    by (cases "foldl (post_init_unit lookup ?ch (Application.name self)) (Application.units self, lg0) ?sus")
  let ?a = "self\<lparr>charm := ?ch, channel := charm_channel (status self), charm_origin := origin,
              os_origin := ov, units := us'\<rparr>"
  have run: "post_init extract_charm_name_from_url lookup self = (lg', Inr ?a)"
    using origin oo loop by (simp add: post_init_def Let_def get_os_origin_fields)
  note inv = post_init_loop [OF assms loop]
  have entries: "\<forall>(unit, st)\<in>set ?sus.
               \<exists>d. map_of (Application.units ?a) unit = Some d \<and>
                   map_of d ''workload_version'' = Some (Str (workload_version st)) \<and>
                   get_os_version d =
                     (case lookup (Application.charm ?a) (workload_version st) of
                        [] \<Rightarrow> NoneValue
                      | r # rs \<Rightarrow> Release (Max (set (r # rs))))"
    using inv by (fastforce simp: get_os_version_def dict_get_def)
  show ?thesis
    by (rule exI [of _ ?a]) (use run inv entries oo in simp)
qed

theorem post_init_resolves_units_witness:
  "distinct (map fst (ApplicationStatus.units (status (keystone []))))
   \<and> post_init (\<lambda>url. ''keystone'') example_lookup (keystone []) =
       ([(WARNING, ''No compatible OpenStack versions were found to %s with workload version %s'',
          [ArgStr ''keystone'', ArgStr ''0.0.1''])],
        Inr (keystone
          [(''keystone/0'', [(''workload_version'', Str ''17.0.1''), (''os_version'', Release 3)]),
           (''keystone/1'', [(''workload_version'', Str ''18.1.0''), (''os_version'', Release 5)]),
           (''keystone/2'', [(''workload_version'', Str ''0.0.1''), (''os_version'', NoneValue)])]))"
proof -
  have d: "distinct (map fst (ApplicationStatus.units (status (keystone []))))"
    by (simp add: keystone_def keystone_status_def)
  from d post_init_resolves_units [OF d, of "\<lambda>url. ''keystone''" example_lookup]
  show ?thesis
    by (simp add: post_init_def keystone_def keystone_status_def example_lookup_def
        list_getitem_def get_os_origin_def dict_get_def post_init_unit_def py_max_def Let_def)
qed

section \<open>The names of units as one string\<close>

lemma stringify_units_sorted:
  assumes "sorted ns" and "mset ns = mset (map Unit.name us)"
  shows "stringify_units us = join '', '' ns"
proof -
  from assms have "sort (map Unit.name us) = ns" by (intro properties_for_sort) simp_all
  then show ?thesis by (simp add: stringify_units_def)
qed

lemma stringify_units_same_names:
  assumes "mset (map Unit.name us) = mset (map Unit.name vs)"
  shows "stringify_units us = stringify_units vs"
proof -
  have "sort (map Unit.name us) = sort (map Unit.name vs)"
    using assms by (intro properties_for_sort) simp_all
  then show ?thesis by (simp add: stringify_units_def)
qed

text \<open>
  Claim C10. The result of \<open>stringify_units\<close> is the \<open>", "\<close>-join of a sorted
  arrangement of the names of the units, and of any such arrangement (there is one only);
  so two inputs that are permutations of each other, or that only carry the same names
  the same number of times, give the same string. The order is the order of Python on
  strings: by code point, so capitals come before small letters and \<open>"keystone/10"\<close>
  before \<open>"keystone/2"\<close>.
\<close>

theorem stringify_units_sorted_join:
  "(\<exists>ns. sorted ns \<and> mset ns = mset (map Unit.name us) \<and> stringify_units us = join '', '' ns)
   \<and> (\<forall>ns. sorted ns \<and> mset ns = mset (map Unit.name us) \<longrightarrow> stringify_units us = join '', '' ns)
   \<and> (mset us = mset vs \<longrightarrow> stringify_units us = stringify_units vs)
   \<and> (mset (map Unit.name us) = mset (map Unit.name vs) \<longrightarrow> stringify_units us = stringify_units vs)"
proof (intro conjI allI impI)
  show "\<exists>ns. sorted ns \<and> mset ns = mset (map Unit.name us) \<and> stringify_units us = join '', '' ns"
    by (rule exI [of _ "sort (map Unit.name us)"]) (simp add: stringify_units_def)
next
  fix ns
  assume "sorted ns \<and> mset ns = mset (map Unit.name us)"
  then show "stringify_units us = join '', '' ns" by (simp add: stringify_units_sorted)
next
  assume "mset us = mset vs"
  then have "mset (map Unit.name us) = mset (map Unit.name vs)" by (metis mset_map)
  then show "stringify_units us = stringify_units vs" by (rule stringify_units_same_names)
next
  assume "mset (map Unit.name us) = mset (map Unit.name vs)"
  then show "stringify_units us = stringify_units vs" by (rule stringify_units_same_names)
qed

theorem stringify_units_sorted_join_witness:
  "stringify_units [\<lparr>Unit.name = ''keystone/2''\<rparr>, \<lparr>Unit.name = ''keystone/10''\<rparr>, \<lparr>Unit.name = ''Keystone/0''\<rparr>] =
     ''Keystone/0, keystone/10, keystone/2''
   \<and> stringify_units [\<lparr>Unit.name = ''keystone/10''\<rparr>, \<lparr>Unit.name = ''Keystone/0''\<rparr>, \<lparr>Unit.name = ''keystone/2''\<rparr>] =
     stringify_units [\<lparr>Unit.name = ''keystone/2''\<rparr>, \<lparr>Unit.name = ''keystone/10''\<rparr>, \<lparr>Unit.name = ''Keystone/0''\<rparr>]"
proof -
  let ?us = "[\<lparr>Unit.name = ''keystone/2''\<rparr>, \<lparr>Unit.name = ''keystone/10''\<rparr>, \<lparr>Unit.name = ''Keystone/0''\<rparr>]"
  let ?vs = "[\<lparr>Unit.name = ''keystone/10''\<rparr>, \<lparr>Unit.name = ''Keystone/0''\<rparr>, \<lparr>Unit.name = ''keystone/2''\<rparr>]"
  let ?ns = "[''Keystone/0'', ''keystone/10'', ''keystone/2'']"
  have s: "sorted ?ns \<and> mset ?ns = mset (map Unit.name ?us)" by simp
  have p: "mset ?vs = mset ?us" by simp
  from s p stringify_units_sorted_join [of ?us ?vs]
  have "stringify_units ?us = join '', '' ?ns \<and> stringify_units ?vs = stringify_units ?us"
    by (metis (no_types, lifting))
  then show ?thesis by simp
qed

section \<open>The release consensus of the OSDs\<close>










lemma py_strip_no_break_space:
  "py_strip ([CHR 0x09] @ ''octopus'' @ [CHR 0xC2, CHR 0xA0, CHR 0xE2, CHR 0x80, CHR 0x83]) = ''octopus''"
  by (simp add: py_strip_def py_isspace_def py_isspace2_def py_isspace3_def)






lemma ex_known: "str_contains ''octopus'' (join '', '' ceph_releases)"
  by (simp add: ceph_releases_def)










section \<open>The target of an upgrade\<close>

lemma index_of_nth: "distinct xs \<Longrightarrow> i < length xs \<Longrightarrow> index_of xs (xs ! i) = Some i"
proof (induction xs arbitrary: i)
  case Nil
  then show ?case by simp
next
  case (Cons y ys)
  show ?case
  proof (cases i)
    case 0
    then show ?thesis by simp
  next
    case (Suc j)
    with Cons.prems have "j < length ys" and "ys ! j \<noteq> y" by auto
    with Cons Suc show ?thesis by simp
  qed
qed

lemma determine_upgrade_target_next:
  assumes d: "distinct releases"
    and w: "releases = before @ dict_get supported a_series [] @ after"
    and m: "release \<in> set (dict_get supported a_series [])"
    and l: "release \<noteq> last (dict_get supported a_series [])"
  shows "\<exists>i target. index_of releases release = Some i \<and>
           determine_upgrade_target releases supported (Some release) (Some a_series) = Inr target \<and>
           index_of releases target = Some (Suc i)"
proof -
  let ?window = "dict_get supported a_series []"
  from m obtain w1 w2 where split: "?window = w1 @ release # w2" by (auto simp: in_set_conv_decomp)
  with l have "w2 \<noteq> []" by auto
  then obtain t w3 where w2: "w2 = t # w3" by (cases w2) auto
  let ?i = "length before + length w1"
  from w split w2 have rel: "releases = (before @ w1) @ release # t # w3 @ after" by simp
  then have len: "Suc ?i < length releases" by simp
  from rel have at_i: "releases ! ?i = release"
    by (metis length_append nth_append_length)
  from rel have "releases = (before @ w1 @ [release]) @ t # w3 @ after" by simp
  then have at_Suc: "releases ! Suc ?i = t"
    by (metis add_Suc_right length_append length_append_singleton nth_append_length)
  from d len have "index_of releases (releases ! ?i) = Some ?i" by (intro index_of_nth) simp_all
  with at_i have i: "index_of releases release = Some ?i" by simp
  from d len have "index_of releases (releases ! Suc ?i) = Some (Suc ?i)" by (intro index_of_nth)
  with at_Suc have t: "index_of releases t = Some (Suc ?i)" by simp
  from i len at_Suc have "next_release releases release = Some t"
    by (simp add: next_release_def)
  with m l have "determine_upgrade_target releases supported (Some release) (Some a_series) = Inr t"
    by (simp add: determine_upgrade_target_def Let_def)
  with i t show ?thesis by blast
qed

text \<open>
  Claim C2. \<open>determine_upgrade_target\<close> is a function of the current release and the
  series (and of the two tables), so it is deterministic. Without a current release or
  without a series it raises \<open>NoTargetError\<close>; for a release outside the window of the
  series it raises \<open>OutOfSupportRange\<close>; for the last release of the window it raises
  \<open>HighestReleaseAchieved\<close>; for any other release of the window it returns the release
  whose rank is one more than the rank of the current release, provided the tables are
  well formed: the sequence has no repetition and the window is a run of it.
\<close>

theorem determine_upgrade_target_cases:
  "determine_upgrade_target releases supported None current_series = Inl NoTargetError
   \<and> determine_upgrade_target releases supported current_release None = Inl NoTargetError
   \<and> (release \<notin> set (dict_get supported a_series []) \<longrightarrow>
        determine_upgrade_target releases supported (Some release) (Some a_series) = Inl OutOfSupportRange)
   \<and> (release \<in> set (dict_get supported a_series []) \<and>
        release = last (dict_get supported a_series []) \<longrightarrow>
        determine_upgrade_target releases supported (Some release) (Some a_series) =
          Inl HighestReleaseAchieved)
   \<and> (distinct releases \<and>
        (\<exists>before after. releases = before @ dict_get supported a_series [] @ after) \<and>
        release \<in> set (dict_get supported a_series []) \<and>
        release \<noteq> last (dict_get supported a_series []) \<longrightarrow>
        (\<exists>i target. index_of releases release = Some i \<and>
           determine_upgrade_target releases supported (Some release) (Some a_series) = Inr target \<and>
           index_of releases target = Some (Suc i)))"
proof (intro conjI impI)
  show "determine_upgrade_target releases supported None current_series = Inl NoTargetError"
    by (simp add: determine_upgrade_target_def)
  show "determine_upgrade_target releases supported current_release None = Inl NoTargetError"
    by (simp add: determine_upgrade_target_def split: option.split)
next
  assume "release \<notin> set (dict_get supported a_series [])"
  then show "determine_upgrade_target releases supported (Some release) (Some a_series) = Inl OutOfSupportRange"
    by (simp add: determine_upgrade_target_def)
next
  assume "release \<in> set (dict_get supported a_series []) \<and>
        release = last (dict_get supported a_series [])"
  then show "determine_upgrade_target releases supported (Some release) (Some a_series) =
          Inl HighestReleaseAchieved"
    by (auto simp: determine_upgrade_target_def Let_def)
next
  assume "distinct releases \<and>
        (\<exists>before after. releases = before @ dict_get supported a_series [] @ after) \<and>
        release \<in> set (dict_get supported a_series []) \<and>
        release \<noteq> last (dict_get supported a_series [])"
  then show "\<exists>i target. index_of releases release = Some i \<and>
           determine_upgrade_target releases supported (Some release) (Some a_series) = Inr target \<and>
           index_of releases target = Some (Suc i)"
    using determine_upgrade_target_next by blast
qed

theorem determine_upgrade_target_cases_witness:
  "determine_upgrade_target os_releases supported_releases None (Some ''bionic'') = Inl NoTargetError
   \<and> determine_upgrade_target os_releases supported_releases (Some ''ussuri'') None = Inl NoTargetError
   \<and> determine_upgrade_target os_releases supported_releases (Some ''zed'') (Some ''focal'') =
       Inl OutOfSupportRange
   \<and> determine_upgrade_target os_releases supported_releases (Some ''yoga'') (Some ''focal'') =
       Inl HighestReleaseAchieved
   \<and> index_of os_releases ''victoria'' = Some 2
   \<and> determine_upgrade_target os_releases supported_releases (Some ''victoria'') (Some ''focal'') =
       Inr ''wallaby''
   \<and> index_of os_releases ''wallaby'' = Some 3"
proof -
  have out: "''zed'' \<notin> set (dict_get supported_releases ''focal'' [])"
    by (simp add: supported_releases_def dict_get_def)
  have top: "''yoga'' \<in> set (dict_get supported_releases ''focal'' []) \<and>
      ''yoga'' = last (dict_get supported_releases ''focal'' [])"
    by (simp add: supported_releases_def dict_get_def)
  have "os_releases = [''train''] @ dict_get supported_releases ''focal'' [] @ [''zed'']"
    by (simp add: os_releases_def supported_releases_def dict_get_def)
  then have window: "\<exists>before after. os_releases = before @ dict_get supported_releases ''focal'' [] @ after"
    by blast
  have mid: "distinct os_releases \<and>
      ''victoria'' \<in> set (dict_get supported_releases ''focal'' []) \<and>
      ''victoria'' \<noteq> last (dict_get supported_releases ''focal'' [])"
    by (simp add: os_releases_def supported_releases_def dict_get_def)
  have i: "index_of os_releases ''victoria'' = Some 2"
    by (simp add: os_releases_def)
  from determine_upgrade_target_cases
    [of os_releases supported_releases "Some ''bionic''" "Some ''ussuri''" "''zed''" "''focal''"] out
  have a: "determine_upgrade_target os_releases supported_releases None (Some ''bionic'') = Inl NoTargetError
   \<and> determine_upgrade_target os_releases supported_releases (Some ''ussuri'') None = Inl NoTargetError
   \<and> determine_upgrade_target os_releases supported_releases (Some ''zed'') (Some ''focal'') =
       Inl OutOfSupportRange"
    by blast
  from determine_upgrade_target_cases
    [of os_releases supported_releases None None "''yoga''" "''focal''"] top
  have b: "determine_upgrade_target os_releases supported_releases (Some ''yoga'') (Some ''focal'') =
       Inl HighestReleaseAchieved"
    by blast
  from determine_upgrade_target_cases
    [of os_releases supported_releases None None "''victoria''" "''focal''"] window mid
  obtain j target where "index_of os_releases ''victoria'' = Some j"
    and "determine_upgrade_target os_releases supported_releases (Some ''victoria'') (Some ''focal'') = Inr target"
    and "index_of os_releases target = Some (Suc j)"
    by blast
  moreover have "determine_upgrade_target os_releases supported_releases (Some ''victoria'') (Some ''focal'') =
      Inr ''wallaby''"
    by (simp add: determine_upgrade_target_def os_releases_def supported_releases_def dict_get_def
        next_release_def)
  ultimately have c: "determine_upgrade_target os_releases supported_releases (Some ''victoria'') (Some ''focal'') =
       Inr ''wallaby'' \<and> index_of os_releases ''wallaby'' = Some 3"
    using i by simp
  from a b c i show ?thesis by simp
qed

section \<open>The plan of a group of applications\<close>

lemma create_upgrade_group_loop_plans:
  assumes "\<forall>a\<in>set apps. generate a target = Inl HaltUpgradePlanGeneration \<or>
             (\<exists>p. generate a target = Inr p)"
  shows "create_upgrade_group_loop generate target apps plans =
           Inr (plans @ concat (map (\<lambda>a. case generate a target of Inr p \<Rightarrow> [p] | Inl e \<Rightarrow> []) apps))"
  using assms
proof (induction apps arbitrary: plans)
  case Nil
  then show ?case by simp
next
  case (Cons a apps)
  then show ?case by (auto split: sum.splits exn.splits)
qed

lemma create_upgrade_group_loop_error:
  assumes "\<forall>a\<in>set before. generate a target = Inl HaltUpgradePlanGeneration \<or>
             (\<exists>p. generate a target = Inr p)"
    and "generate app target = Inl e" and "e \<noteq> HaltUpgradePlanGeneration"
  shows "create_upgrade_group_loop generate target (before @ app # after) plans = Inl e"
  using assms
proof (induction before arbitrary: plans)
  case Nil
  then show ?case by (cases e) simp_all
next
  case (Cons a before)
  then show ?case by (auto split: sum.splits exn.splits)
qed

text \<open>
  Claim C5. When the generation for one application of the list halts and the generation
  for every other application gives a plan, \<open>create_upgrade_group\<close> returns the group
  whose sub-steps are the plans of the other applications, in the order of the list, and
  raises nothing. When the generation for one application raises another exception, and
  the other applications give a plan or halt, \<open>create_upgrade_group\<close> raises that
  exception and returns no plan.
\<close>

theorem create_upgrade_group_halt_or_raise:
  "(generate app target = Inl HaltUpgradePlanGeneration \<and>
      (\<forall>a\<in>set (before @ after). generate a target = Inr (plan_of a)) \<longrightarrow>
    create_upgrade_group generate (before @ app # after) target a_description =
      Inr (Step UpgradePlan a_description False None (map plan_of (before @ after))))
   \<and> (generate app target = Inl e \<and> e \<noteq> HaltUpgradePlanGeneration \<and>
      (\<forall>a\<in>set (before @ after). generate a target = Inl HaltUpgradePlanGeneration \<or>
         (\<exists>p. generate a target = Inr p)) \<longrightarrow>
    create_upgrade_group generate (before @ app # after) target a_description = Inl e)"
proof (intro conjI impI)
  assume h: "generate app target = Inl HaltUpgradePlanGeneration \<and>
      (\<forall>a\<in>set (before @ after). generate a target = Inr (plan_of a))"
  then have "\<forall>a\<in>set (before @ app # after). generate a target = Inl HaltUpgradePlanGeneration \<or>
             (\<exists>p. generate a target = Inr p)" by auto
  then have "create_upgrade_group_loop generate target (before @ app # after) [] =
      Inr ([] @ concat (map (\<lambda>a. case generate a target of Inr p \<Rightarrow> [p] | Inl e \<Rightarrow> [])
                         (before @ app # after)))"
    by (rule create_upgrade_group_loop_plans)
  moreover from h have "concat (map (\<lambda>a. case generate a target of Inr p \<Rightarrow> [p] | Inl e \<Rightarrow> []) before) =
      map plan_of before"
    by (induction before) auto
  moreover from h have "concat (map (\<lambda>a. case generate a target of Inr p \<Rightarrow> [p] | Inl e \<Rightarrow> []) after) =
      map plan_of after"
    by (induction after) auto
  ultimately show "create_upgrade_group generate (before @ app # after) target a_description =
      Inr (Step UpgradePlan a_description False None (map plan_of (before @ after)))"
    using h by (simp add: create_upgrade_group_def)
next
  assume "generate app target = Inl e \<and> e \<noteq> HaltUpgradePlanGeneration \<and>
      (\<forall>a\<in>set (before @ after). generate a target = Inl HaltUpgradePlanGeneration \<or>
         (\<exists>p. generate a target = Inr p))"
  then have "create_upgrade_group_loop generate target (before @ app # after) [] = Inl e"
    by (intro create_upgrade_group_loop_error) auto
  then show "create_upgrade_group generate (before @ app # after) target a_description = Inl e"
    by (simp add: create_upgrade_group_def)
qed

lemma ex_previous: "previous_release os_releases ''victoria'' = Some ''ussuri''"
  by (simp add: previous_release_def os_releases_def)

lemma ex_generate:
  "app_name app \<noteq> ''halted'' \<Longrightarrow> app_name app \<noteq> ''broken'' \<Longrightarrow>
   example_generate app ''victoria'' = Inr (generate_upgrade_plan ''test_model'' app ''ussuri'' ''victoria'')"
  by (simp add: example_generate_def ex_previous)

theorem create_upgrade_group_halt_or_raise_witness:
  "create_upgrade_group example_generate
     [keystone_app, keystone_app\<lparr>app_name := ''halted''\<rparr>, cinder_app] ''victoria'' ''test'' =
     Inr (Step UpgradePlan ''test'' False None
            [generate_upgrade_plan ''test_model'' keystone_app ''ussuri'' ''victoria'',
             generate_upgrade_plan ''test_model'' cinder_app ''ussuri'' ''victoria''])
   \<and> create_upgrade_group example_generate
       [keystone_app, keystone_app\<lparr>app_name := ''broken''\<rparr>, cinder_app] ''victoria'' ''test'' =
       Inl (OtherException ''test'')"
proof -
  let ?plan_of = "\<lambda>a. generate_upgrade_plan ''test_model'' a ''ussuri'' ''victoria''"
  have others: "\<forall>a\<in>set ([keystone_app] @ [cinder_app]). example_generate a ''victoria'' = Inr (?plan_of a)"
    by (simp add: ex_generate keystone_app_def cinder_app_def)
  then have others': "\<forall>a\<in>set ([keystone_app] @ [cinder_app]).
      example_generate a ''victoria'' = Inl HaltUpgradePlanGeneration \<or>
      (\<exists>p. example_generate a ''victoria'' = Inr p)"
    by simp
  have halted: "example_generate (keystone_app\<lparr>app_name := ''halted''\<rparr>) ''victoria'' =
      Inl HaltUpgradePlanGeneration"
    by (simp add: example_generate_def)
  have broken: "example_generate (keystone_app\<lparr>app_name := ''broken''\<rparr>) ''victoria'' =
      Inl (OtherException ''test'') \<and> OtherException ''test'' \<noteq> HaltUpgradePlanGeneration"
    by (simp add: example_generate_def)
  from halted others create_upgrade_group_halt_or_raise
    [of example_generate "keystone_app\<lparr>app_name := ''halted''\<rparr>" "''victoria''" "[keystone_app]"
      "[cinder_app]" ?plan_of "''test''"]
  have a: "create_upgrade_group example_generate
     ([keystone_app] @ keystone_app\<lparr>app_name := ''halted''\<rparr> # [cinder_app]) ''victoria'' ''test'' =
     Inr (Step UpgradePlan ''test'' False None (map ?plan_of ([keystone_app] @ [cinder_app])))"
    by blast
  from broken others' create_upgrade_group_halt_or_raise
    [of example_generate "keystone_app\<lparr>app_name := ''broken''\<rparr>" "''victoria''" "[keystone_app]"
      "[cinder_app]" ?plan_of "''test''" "OtherException ''test''"]
  have b: "create_upgrade_group example_generate
     ([keystone_app] @ keystone_app\<lparr>app_name := ''broken''\<rparr> # [cinder_app]) ''victoria'' ''test'' =
     Inl (OtherException ''test'')"
    by blast
  from a b show ?thesis by simp
qed

section \<open>The plan of one application\<close>

lemma unit_steps_no_wait:
  "filter is_wait (concat (map all_steps
     (map (\<lambda>u. Step UnitUpgradeStep (d u) False (Some (UpgradePackages (Unit.name u) None)) []) us))) = []"
  by (induction us) simp_all

lemma is_wait_wait_step: "is_wait (wait_step m app)"
  by (simp add: wait_step_def)

text \<open>
  Claim C4. The plan of a subordinate application has exactly two sub-steps, the
  refresh on the channel of the current release and then the switch to the channel of the
  target release, and no step of its tree waits for the idle state. In the tree of the
  plan of a principal application exactly one step waits: for 1800 seconds and the whole
  model (no application given) when the charm is rabbitmq-server, ceph-mon or keystone,
  and for 300 seconds and the application alone otherwise.
\<close>

theorem generate_upgrade_plan_steps:
  "(is_subordinate app \<longrightarrow>
      sub_steps (generate_upgrade_plan the_model app current target) =
        [Step PreUpgradeStep
           (''Refresh '' @ quoted (app_name app) @ '' to the latest revision of '' @
            quoted (current @ ''/stable''))
           False (Some (UpgradeCharm (app_name app) (current @ ''/stable'') None)) [],
         Step UpgradeStep
           (''Upgrade '' @ quoted (app_name app) @ '' to the new channel: '' @
            quoted (target @ ''/stable''))
           False (Some (UpgradeCharm (app_name app) (target @ ''/stable'') None)) []] \<and>
      filter is_wait (all_steps (generate_upgrade_plan the_model app current target)) = [])
   \<and> (\<not> is_subordinate app \<and> app_charm app \<in> {''rabbitmq-server'', ''ceph-mon'', ''keystone''} \<longrightarrow>
      filter is_wait (all_steps (generate_upgrade_plan the_model app current target)) =
        [Step PostUpgradeStep (''Wait 1800s for model '' @ the_model @ '' to reach the idle state.'')
           False (Some (WaitForActiveIdle 1800 None None None)) []])
   \<and> (\<not> is_subordinate app \<and> app_charm app \<notin> {''rabbitmq-server'', ''ceph-mon'', ''keystone''} \<longrightarrow>
      filter is_wait (all_steps (generate_upgrade_plan the_model app current target)) =
        [Step PostUpgradeStep (''Wait 300s for app '' @ app_name app @ '' to reach the idle state.'')
           False (Some (WaitForActiveIdle 300 (Some [app_name app]) None None)) []])"
proof (intro conjI impI)
  assume "is_subordinate app"
  then show "sub_steps (generate_upgrade_plan the_model app current target) =
        [Step PreUpgradeStep
           (''Refresh '' @ quoted (app_name app) @ '' to the latest revision of '' @
            quoted (current @ ''/stable''))
           False (Some (UpgradeCharm (app_name app) (current @ ''/stable'') None)) [],
         Step UpgradeStep
           (''Upgrade '' @ quoted (app_name app) @ '' to the new channel: '' @
            quoted (target @ ''/stable''))
           False (Some (UpgradeCharm (app_name app) (target @ ''/stable'') None)) []]"
    and "filter is_wait (all_steps (generate_upgrade_plan the_model app current target)) = []"
    by (simp_all add: generate_upgrade_plan_def refresh_step_def switch_step_def)
next
  assume "\<not> is_subordinate app \<and> app_charm app \<in> {''rabbitmq-server'', ''ceph-mon'', ''keystone''}"
  then have "\<not> is_subordinate app" and "app_charm app \<in> set coordinator_charms"
    by (simp_all add: coordinator_charms_def)
  then show "filter is_wait (all_steps (generate_upgrade_plan the_model app current target)) =
        [Step PostUpgradeStep (''Wait 1800s for model '' @ the_model @ '' to reach the idle state.'')
           False (Some (WaitForActiveIdle 1800 None None None)) []]"
    by (simp add: generate_upgrade_plan_def refresh_step_def switch_step_def wait_step_def
        unit_steps_no_wait)
next
  assume "\<not> is_subordinate app \<and> app_charm app \<notin> {''rabbitmq-server'', ''ceph-mon'', ''keystone''}"
  then have "\<not> is_subordinate app" and "app_charm app \<notin> set coordinator_charms"
    by (simp_all add: coordinator_charms_def)
  then show "filter is_wait (all_steps (generate_upgrade_plan the_model app current target)) =
        [Step PostUpgradeStep (''Wait 300s for app '' @ app_name app @ '' to reach the idle state.'')
           False (Some (WaitForActiveIdle 300 (Some [app_name app]) None None)) []]"
    by (simp add: generate_upgrade_plan_def refresh_step_def switch_step_def wait_step_def
        unit_steps_no_wait)
qed

theorem generate_upgrade_plan_steps_witness:
  "is_subordinate keystone_ldap_app
   \<and> sub_steps (generate_upgrade_plan ''test_model'' keystone_ldap_app ''ussuri'' ''victoria'') =
       [Step PreUpgradeStep
          (''Refresh '' @ quoted ''keystone-ldap'' @ '' to the latest revision of '' @ quoted ''ussuri/stable'')
          False (Some (UpgradeCharm ''keystone-ldap'' ''ussuri/stable'' None)) [],
        Step UpgradeStep
          (''Upgrade '' @ quoted ''keystone-ldap'' @ '' to the new channel: '' @ quoted ''victoria/stable'')
          False (Some (UpgradeCharm ''keystone-ldap'' ''victoria/stable'' None)) []]
   \<and> filter is_wait (all_steps (generate_upgrade_plan ''test_model'' keystone_ldap_app ''ussuri'' ''victoria'')) = []
   \<and> filter is_wait (all_steps (generate_upgrade_plan ''test_model'' keystone_app ''ussuri'' ''victoria'')) =
       [Step PostUpgradeStep ''Wait 1800s for model test_model to reach the idle state.''
          False (Some (WaitForActiveIdle 1800 None None None)) []]
   \<and> filter is_wait (all_steps (generate_upgrade_plan ''test_model'' cinder_app ''ussuri'' ''victoria'')) =
       [Step PostUpgradeStep ''Wait 300s for app cinder to reach the idle state.''
          False (Some (WaitForActiveIdle 300 (Some [''cinder'']) None None)) []]"
proof -
  have s: "is_subordinate keystone_ldap_app"
    by (simp add: keystone_ldap_app_def)
  have k: "\<not> is_subordinate keystone_app \<and>
      app_charm keystone_app \<in> {''rabbitmq-server'', ''ceph-mon'', ''keystone''}"
    by (simp add: keystone_app_def)
  have c: "\<not> is_subordinate cinder_app \<and>
      app_charm cinder_app \<notin> {''rabbitmq-server'', ''ceph-mon'', ''keystone''}"
    by (simp add: cinder_app_def)
  have n: "app_name keystone_ldap_app = ''keystone-ldap''" "app_name cinder_app = ''cinder''"
    by (simp_all add: keystone_ldap_app_def cinder_app_def)
  from s generate_upgrade_plan_steps [of keystone_ldap_app "''test_model''" "''ussuri''" "''victoria''"]
  have a: "sub_steps (generate_upgrade_plan ''test_model'' keystone_ldap_app ''ussuri'' ''victoria'') =
       [Step PreUpgradeStep
          (''Refresh '' @ quoted ''keystone-ldap'' @ '' to the latest revision of '' @ quoted ''ussuri/stable'')
          False (Some (UpgradeCharm ''keystone-ldap'' ''ussuri/stable'' None)) [],
        Step UpgradeStep
          (''Upgrade '' @ quoted ''keystone-ldap'' @ '' to the new channel: '' @ quoted ''victoria/stable'')
          False (Some (UpgradeCharm ''keystone-ldap'' ''victoria/stable'' None)) []]
   \<and> filter is_wait (all_steps (generate_upgrade_plan ''test_model'' keystone_ldap_app ''ussuri'' ''victoria'')) = []"
    by (simp add: n)
  from k generate_upgrade_plan_steps [of keystone_app "''test_model''" "''ussuri''" "''victoria''"]
  have b: "filter is_wait (all_steps (generate_upgrade_plan ''test_model'' keystone_app ''ussuri'' ''victoria'')) =
       [Step PostUpgradeStep ''Wait 1800s for model test_model to reach the idle state.''
          False (Some (WaitForActiveIdle 1800 None None None)) []]"
    by simp
  from c generate_upgrade_plan_steps [of cinder_app "''test_model''" "''ussuri''" "''victoria''"]
  have d: "filter is_wait (all_steps (generate_upgrade_plan ''test_model'' cinder_app ''ussuri'' ''victoria'')) =
       [Step PostUpgradeStep ''Wait 300s for app cinder to reach the idle state.''
          False (Some (WaitForActiveIdle 300 (Some [''cinder'']) None None)) []]"
    by (simp add: n)
  from s a b d show ?thesis by simp
qed

section \<open>The plan of the deployment\<close>

text \<open>
  Claim C8. Every plan that \<open>generate_plan\<close> returns starts with the step that checks
  that the deployment is idle (it raises when an application is blocked) and the backup
  step, both with the parallel flag off; the group of the principals of the control plane
  and then the group of its subordinates follow.
\<close>

theorem generate_plan_first_steps:
  "generate_plan releases supported generate analysis_result = Inr plan \<longrightarrow>
     (\<exists>target control_plane_principals control_plane_subordinates.
        sub_steps plan =
          [Step PreUpgradeStep ''Verify that all OpenStack applications are in idle state'' False
             (Some (WaitForActiveIdle 11 None (Some 10) (Some True))) [],
           Step PreUpgradeStep ''Backup mysql databases'' False (Some Backup) [],
           control_plane_principals, control_plane_subordinates] \<and>
        create_upgrade_group generate
          (filter (\<lambda>app. \<not> is_subordinate app) (apps_control_plane analysis_result))
          target ''Control Plane principal(s) upgrade plan'' = Inr control_plane_principals \<and>
        create_upgrade_group generate
          (filter is_subordinate (apps_control_plane analysis_result))
          target ''Control Plane subordinate(s) upgrade plan'' = Inr control_plane_subordinates)"
  by (auto simp: generate_plan_def verify_idle_step_def backup_step_def split: sum.splits)

lemma ex_target:
  "determine_upgrade_target os_releases supported_releases (Some ''ussuri'') (Some ''focal'') = Inr ''victoria''"
  by (simp add: determine_upgrade_target_def os_releases_def supported_releases_def dict_get_def
      next_release_def)

lemma ex_principals:
  "create_upgrade_group example_generate [keystone_app, cinder_app] ''victoria'' d =
     Inr (Step UpgradePlan d False None
            [generate_upgrade_plan ''test_model'' keystone_app ''ussuri'' ''victoria'',
             generate_upgrade_plan ''test_model'' cinder_app ''ussuri'' ''victoria''])"
  by (simp add: create_upgrade_group_def ex_generate keystone_app_def cinder_app_def)

lemma ex_subordinates:
  "create_upgrade_group example_generate [keystone_ldap_app] ''victoria'' d =
     Inr (Step UpgradePlan d False None
            [generate_upgrade_plan ''test_model'' keystone_ldap_app ''ussuri'' ''victoria''])"
  by (simp add: create_upgrade_group_def ex_generate keystone_ldap_app_def)

lemma ex_plan:
  "generate_plan os_releases supported_releases example_generate example_analysis =
     Inr (Step UpgradePlan (''Upgrade cloud from '' @ quoted ''ussuri'' @ '' to '' @ quoted ''victoria'')
            False None
            [verify_idle_step, backup_step,
             Step UpgradePlan ''Control Plane principal(s) upgrade plan'' False None
               [generate_upgrade_plan ''test_model'' keystone_app ''ussuri'' ''victoria'',
                generate_upgrade_plan ''test_model'' cinder_app ''ussuri'' ''victoria''],
             Step UpgradePlan ''Control Plane subordinate(s) upgrade plan'' False None
               [generate_upgrade_plan ''test_model'' keystone_ldap_app ''ussuri'' ''victoria'']])"
proof -
  have p: "filter (\<lambda>app. \<not> is_subordinate app) (apps_control_plane example_analysis) =
      [keystone_app, cinder_app]"
    by (simp add: example_analysis_def keystone_app_def cinder_app_def keystone_ldap_app_def)
  have s: "filter is_subordinate (apps_control_plane example_analysis) = [keystone_ldap_app]"
    by (simp add: example_analysis_def keystone_app_def cinder_app_def keystone_ldap_app_def)
  have r: "current_cloud_os_release example_analysis = Some ''ussuri''"
    "current_cloud_series example_analysis = Some ''focal''"
    by (simp_all add: example_analysis_def)
  show ?thesis
    by (simp add: generate_plan_def p s r ex_target ex_principals ex_subordinates)
qed

theorem generate_plan_first_steps_witness:
  "take 2 (sub_steps (projr (generate_plan os_releases supported_releases example_generate example_analysis))) =
     [Step PreUpgradeStep ''Verify that all OpenStack applications are in idle state'' False
        (Some (WaitForActiveIdle 11 None (Some 10) (Some True))) [],
      Step PreUpgradeStep ''Backup mysql databases'' False (Some Backup) []]
   \<and> map description (drop 2 (sub_steps (projr
        (generate_plan os_releases supported_releases example_generate example_analysis)))) =
     [''Control Plane principal(s) upgrade plan'', ''Control Plane subordinate(s) upgrade plan'']"
proof -
  let ?plan = "projr (generate_plan os_releases supported_releases example_generate example_analysis)"
  have "generate_plan os_releases supported_releases example_generate example_analysis = Inr ?plan"
    by (simp add: ex_plan)
  with generate_plan_first_steps
    [of os_releases supported_releases example_generate example_analysis ?plan]
  obtain target principals subordinates where
    "sub_steps ?plan =
          [Step PreUpgradeStep ''Verify that all OpenStack applications are in idle state'' False
             (Some (WaitForActiveIdle 11 None (Some 10) (Some True))) [],
           Step PreUpgradeStep ''Backup mysql databases'' False (Some Backup) [],
           principals, subordinates]"
    by blast
  moreover have "map description (drop 2 (sub_steps ?plan)) =
     [''Control Plane principal(s) upgrade plan'', ''Control Plane subordinate(s) upgrade plan'']"
    by (simp add: ex_plan)
  ultimately show ?thesis by simp
qed

end
